theory Spec2Isabelle
  imports Main "HOL-Library.Multiset"
begin

section \<open>Values, promises and the host's objects\<close>

text \<open>
  The client is glue between the editor host and a language server. Everything that crosses
  the request boundary is a JSON-like value; the descriptors of the server (ILE objects,
  impacted objects) are opaque objects to this code.
\<close>

datatype jsval =
    JUndefined
  | JBool bool
  | JString string
  | JArray "jsval list"
  | JObject "(string \<times> jsval) list"

text \<open>A promise as the caller observes it: settled with a value, rejected, or never settled.\<close>

datatype 'a promise = Resolved 'a | Rejected | Pending

text \<open>What a plain (non-async) function hands back: \<open>undefined\<close> or a promise.\<close>

datatype retval = Undefined | Promise "jsval promise"

record Uri =
  toString :: string
  fsPath :: string

record WorkspaceFolder =
  uri :: Uri
  folder_name :: string

text \<open>
  The language client of the host library. Its \<open>sendRequest\<close> puts a request on the wire
  and hands back the promise of the reply; which reply comes is the server's business.
\<close>

datatype LanguageClient =
  LanguageClient (client_id: string) (client_name: string)
    (sendRequest: "string \<Rightarrow> jsval list \<Rightarrow> jsval promise")

datatype view = ActiveImpactView | GitImpactView

record TextDocument =
  doc_uri :: Uri

record TextEditor =
  document :: "TextDocument option"

record ObjectsView =
  workspaceFolder :: WorkspaceFolder

record ILEObjectTreeItem =
  resourceUri :: "Uri option"

record IProject =
  iproject_workspaceFolder :: WorkspaceFolder

text \<open>
  What a handler does to the outside world, in the order it does it. A request on the
  language-client connection is \<open>SendRequest\<close>; a call of \<open>showImpactFor\<close> on one of the
  two impact views is \<open>ShowImpactFor\<close> (the view class itself is not part of these files,
  so what the view does with the list is not modelled).
\<close>

datatype effect =
    SendRequest string "jsval list"
  | ShowImpactFor view "Uri list"
  | GetChangedFiles WorkspaceFolder
  | ExecuteCommand string "jsval list"
  | Refresh ObjectsView
  | OpenTextDocument Uri
  | ShowTextDocument TextDocument
  | ShowInformationMessage string "string list"
  | ClientStart LanguageClient
  | ClientStop LanguageClient
  | LoadIBMiProjectExplorer

section \<open>The request-forwarding module\<close>

text \<open>
  The module keeps one variable, \<open>client\<close>, unset until \<open>setClient\<close> runs. Each function
  takes the variable's current value (\<open>None\<close> while unset) and returns what the caller gets
  together with the requests put on the wire. The \<open>as T\<close> casts of the source do nothing at
  run time, so an awaited reply is handed on as it came.
\<close>

definition isReady :: "LanguageClient option \<Rightarrow> WorkspaceFolder \<Rightarrow> jsval promise \<times> effect list" where
  "isReady client folder =
    (case client of
       None \<Rightarrow> (Resolved (JBool False), [])
     | Some lc \<Rightarrow>
         (sendRequest lc ''isReady'' [JString (toString (uri folder))],
          [SendRequest ''isReady'' [JString (toString (uri folder))]]))"

definition getResolvedObjects :: "LanguageClient option \<Rightarrow> WorkspaceFolder \<Rightarrow> jsval promise \<times> effect list" where
  "getResolvedObjects client folder =
    (case client of
       None \<Rightarrow> (Resolved (JArray []), [])
     | Some lc \<Rightarrow>
         (sendRequest lc ''getResolvedObjects'' [JString (toString (uri folder))],
          [SendRequest ''getResolvedObjects'' [JString (toString (uri folder))]]))"

definition getDeps :: "LanguageClient option \<Rightarrow> WorkspaceFolder \<Rightarrow> jsval \<Rightarrow> jsval promise \<times> effect list" where
  "getDeps client folder ileObject =
    (case client of
       None \<Rightarrow> (Resolved (JArray []), [])
     | Some lc \<Rightarrow>
         (sendRequest lc ''getDeps'' [JString (toString (uri folder)), ileObject],
          [SendRequest ''getDeps'' [JString (toString (uri folder)), ileObject]]))"

definition getImpacts :: "LanguageClient option \<Rightarrow> WorkspaceFolder \<Rightarrow> Uri list \<Rightarrow> jsval promise \<times> effect list" where
  "getImpacts client folder fileUris =
    (case client of
       None \<Rightarrow> (Resolved (JArray []), [])
     | Some lc \<Rightarrow>
         (sendRequest lc ''getImpacts''
            [JString (toString (uri folder)), JArray (map (\<lambda>u. JString (toString u)) fileUris)],
          [SendRequest ''getImpacts''
            [JString (toString (uri folder)), JArray (map (\<lambda>u. JString (toString u)) fileUris)]]))"

definition reloadProject :: "LanguageClient option \<Rightarrow> WorkspaceFolder \<Rightarrow> jsval promise \<times> effect list" where
  "reloadProject client folder =
    (case client of
       None \<Rightarrow> (Rejected, [])
     | Some lc \<Rightarrow>
         (sendRequest lc ''reloadProject'' [JString (toString (uri folder))],
          [SendRequest ''reloadProject'' [JString (toString (uri folder))]]))"

definition fixProject :: "LanguageClient option \<Rightarrow> WorkspaceFolder \<Rightarrow> string \<Rightarrow> retval \<times> effect list" where
  "fixProject client folder suggestion =
    (case client of
       None \<Rightarrow> (Undefined, [])
     | Some lc \<Rightarrow>
         (Promise (sendRequest lc ''fixProject'' [JString (toString (uri folder)), JString suggestion]),
          [SendRequest ''fixProject'' [JString (toString (uri folder)), JString suggestion]]))"

text \<open>
  The degraded values the specification lists for a call without a connection: an empty
  list, \<open>false\<close>, or a rejected promise. This predicate follows the specification's words;
  the functions above follow the source.
\<close>

definition documented_degraded :: "retval \<Rightarrow> bool" where
  "documented_degraded r =
    (r = Promise (Resolved (JArray [])) \<or> r = Promise (Resolved (JBool False)) \<or> r = Promise Rejected)"

section \<open>The source-control API of the host\<close>

text \<open>
  The git extension's objects, as far as the client reads them: a repository's state has an
  optional \<open>HEAD\<close>, a branch object whose \<open>name\<close> may be undefined. The host decides what
  they hold, so they are inputs here.

  A listener keeps the branch object it was given at setup and reads that object again
  later, so objects have an identity of their own: \<open>HEAD\<close> is a reference into the host's
  store of branch objects, and a repository carries an identity (\<open>repo_id\<close>) that tells
  whose state-change event a listener is subscribed to. On a switch of branch the host may
  either change the object \<open>HEAD\<close> refers to, or make \<open>HEAD\<close> refer to a new object and
  leave the old one as it was; both are hosts of this model.
\<close>

type_synonym ref = nat

record Branch =
  name :: "string option"

record RepositoryState =
  HEAD :: "ref option"

record Repository =
  repo_id :: nat
  repo_state :: RepositoryState

record GitAPI =
  getRepository :: "Uri \<Rightarrow> Repository option"

text \<open>
  What the surroundings answer when the client asks: the git API (if the git extension is
  there), what each branch object holds at this moment, the changed files of a folder (\<open>getDeployGitFiles\<close>, imported under the name
  \<open>getChangedFiles\<close>; its promise may fail), the workspace's folders, whether a project
  manager exists, the document a URI opens, and the transport of the language client.
\<close>

record Host =
  getGitAPI :: "GitAPI option"
  branches :: "ref \<Rightarrow> Branch"
  getChangedFiles :: "WorkspaceFolder \<Rightarrow> Uri list promise"
  workspaceFolders :: "WorkspaceFolder list option"
  getProjectManager :: bool
  openTextDocument :: "Uri \<Rightarrow> TextDocument promise"
  transport :: "string \<Rightarrow> jsval list \<Rightarrow> jsval promise"

section \<open>The client's state\<close>

text \<open>
  Every variable that outlives one handler: the \<open>client\<close> variable of the request module,
  the \<open>client\<close> variable of the extension module, the \<open>lastBranch\<close> object (workspace URI
  string to branch name), the \<open>objectViews\<close> object of \<open>activate\<close> (file-system path to
  view), whether the project manager was given the children callback, and the repository
  listeners that \<open>setupGitEventHandler\<close> has pushed onto \<open>context.subscriptions\<close>. A
  listener is a closure: it is subscribed to the state changes of one repository and has
  captured the folder and the \<open>head\<close> object of its setup.
\<close>

record subscription =
  sub_repo :: nat
  sub_folder :: WorkspaceFolder
  sub_head :: ref

record ClientState =
  requests_client :: "LanguageClient option"
  extension_client :: "LanguageClient option"
  lastBranch :: "string \<rightharpoonup> string"
  objectViews :: "string \<rightharpoonup> ObjectsView"
  childrenCallback :: bool
  gitSubscriptions :: "subscription list"

text \<open>JavaScript truthiness of a value of type \<open>string | undefined\<close>: defined and not empty.\<close>

fun truthy :: "string option \<Rightarrow> bool" where
  "truthy None = False"
| "truthy (Some s) = (s \<noteq> [])"

definition setClient :: "LanguageClient \<Rightarrow> ClientState \<Rightarrow> ClientState" where
  "setClient lc st = st\<lparr>requests_client := Some lc\<rparr>"

definition enableViews :: "effect list" where
  "enableViews = [ExecuteCommand ''setContext'' [JString ''vscode-sourceorbit:projectsLoaded'', JBool True]]"

section \<open>Setting up the repository listeners\<close>

text \<open>
  The body of the loop of \<open>setupGitEventHandler\<close> for one folder: only a folder with a
  repository whose \<open>HEAD\<close> has a truthy name gets its branch stored and a listener pushed.
\<close>

definition setupFolder :: "Host \<Rightarrow> GitAPI \<Rightarrow> WorkspaceFolder \<Rightarrow> ClientState \<Rightarrow> ClientState" where
  "setupFolder host gitApi folder st =
    (case getRepository gitApi (uri folder) of
       None \<Rightarrow> st
     | Some repo \<Rightarrow>
         (let workspaceUri = toString (uri folder) in
          case HEAD (repo_state repo) of
            None \<Rightarrow> st
          | Some head \<Rightarrow>
              (if truthy (name (branches host head))
               then (case name (branches host head) of
                       None \<Rightarrow> st
                     | Some n \<Rightarrow>
                         st\<lparr>lastBranch := (lastBranch st)(workspaceUri \<mapsto> n),
                            gitSubscriptions := gitSubscriptions st @
                              [\<lparr>sub_repo = repo_id repo, sub_folder = folder, sub_head = head\<rparr>]\<rparr>)
               else st)))"

definition setupGitEventHandler :: "Host \<Rightarrow> WorkspaceFolder list \<Rightarrow> ClientState \<Rightarrow> ClientState" where
  "setupGitEventHandler host folders st =
    (case getGitAPI host of
       None \<Rightarrow> st
     | Some gitApi \<Rightarrow> fold (setupFolder host gitApi) folders st)"

text \<open>
  The listener pushed for a folder. It reads \<open>head.name\<close> of the branch object it captured
  at setup, whatever the repository's \<open>HEAD\<close> is by now. What it does before it returns
  comes first in the result; what the continuation after \<open>getChangedFiles\<close> does comes
  second. That continuation (\<open>changed_files_lookup\<close>) runs only if the promise resolves;
  the source gives the promise no handler for a rejection.
\<close>

definition changed_files_lookup :: "Host \<Rightarrow> WorkspaceFolder \<Rightarrow> effect list" where
  "changed_files_lookup host folder =
    (case getChangedFiles host folder of
       Resolved files \<Rightarrow> [ShowImpactFor GitImpactView files]
     | Rejected \<Rightarrow> []
     | Pending \<Rightarrow> [])"

definition onDidChange_listener ::
    "Host \<Rightarrow> subscription \<Rightarrow> ClientState \<Rightarrow> (effect list \<times> effect list) \<times> ClientState" where
  "onDidChange_listener host sub st =
    (let folder = sub_folder sub;
         workspaceUri = toString (uri folder) in
     case name (branches host (sub_head sub)) of
       None \<Rightarrow> (([], []), st)
     | Some currentBranch \<Rightarrow>
         (if currentBranch = [] then (([], []), st)
          else
            ((if truthy (lastBranch st workspaceUri) \<and> Some currentBranch \<noteq> lastBranch st workspaceUri
              then (ShowImpactFor GitImpactView [] # snd (reloadProject (requests_client st) folder), [])
              else ([GetChangedFiles folder], changed_files_lookup host folder)),
             st\<lparr>lastBranch := (lastBranch st)(workspaceUri \<mapsto> currentBranch)\<rparr>)))"

text \<open>
  One state change of a repository calls every listener subscribed to it, one after the
  other in the order they were pushed; each sees the branch map as the one before left it.
\<close>

fun run_listeners ::
    "Host \<Rightarrow> subscription list \<Rightarrow> ClientState \<Rightarrow> (effect list \<times> effect list) \<times> ClientState" where
  "run_listeners host [] st = (([], []), st)"
| "run_listeners host (sub # subs) st =
     (let first = onDidChange_listener host sub st;
          others = run_listeners host subs (snd first)
      in ((fst (fst first) @ fst (fst others), snd (fst first) @ snd (fst others)), snd others))"

section \<open>Commands and editor events\<close>

definition cmd_loadProject :: "ClientState \<Rightarrow> ObjectsView option \<Rightarrow> effect list" where
  "cmd_loadProject st node =
    (case node of
       None \<Rightarrow> []
     | Some n \<Rightarrow>
         (case reloadProject (requests_client st) (workspaceFolder n) of
            (Resolved v, sent) \<Rightarrow> sent @ enableViews @ [Refresh n]
          | (Rejected, sent) \<Rightarrow> sent
          | (Pending, sent) \<Rightarrow> sent))"

definition cmd_goToFile :: "Host \<Rightarrow> ILEObjectTreeItem option \<Rightarrow> effect list" where
  "cmd_goToFile host node =
    (case node of
       None \<Rightarrow> []
     | Some n \<Rightarrow>
         (case resourceUri n of
            None \<Rightarrow> []
          | Some u \<Rightarrow>
              OpenTextDocument u #
              (case openTextDocument host u of
                 Resolved doc \<Rightarrow> [ShowTextDocument doc]
               | Rejected \<Rightarrow> []
               | Pending \<Rightarrow> [])))"

text \<open>The \<open>switch\<close> of the picker command: the button chosen to the suggestion kind.\<close>

definition autoFix_type :: "string \<Rightarrow> string option" where
  "autoFix_type chosen =
    (if chosen = ''File names'' then Some ''renames''
     else if chosen = ''RPG includes'' then Some ''includes''
     else None)"

text \<open>
  The picker command. \<open>chosen\<close> is what the information message resolves to: the label of
  the button pressed, or undefined when the user dismisses the message.
\<close>

definition cmd_objects_autoFix :: "ClientState \<Rightarrow> ObjectsView option \<Rightarrow> string option \<Rightarrow> effect list" where
  "cmd_objects_autoFix st node chosen =
    (case node of
       None \<Rightarrow> []
     | Some n \<Rightarrow>
         ShowInformationMessage (''Select auto fix method for '' @ folder_name (workspaceFolder n))
           [''Cancel'', ''File names'', ''RPG includes''] #
         (case chosen of
            None \<Rightarrow> []
          | Some c \<Rightarrow>
              (if c = [] then []
               else (case autoFix_type c of
                       None \<Rightarrow> []
                     | Some t \<Rightarrow>
                         (if t = [] then []
                          else snd (fixProject (requests_client st) (workspaceFolder n) t))))))"

definition cmd_autoFix :: "ClientState \<Rightarrow> WorkspaceFolder \<Rightarrow> string \<Rightarrow> effect list" where
  "cmd_autoFix st folder t = snd (fixProject (requests_client st) folder t)"

definition onDidChangeActiveTextEditor :: "TextEditor option \<Rightarrow> effect list" where
  "onDidChangeActiveTextEditor e =
    (case e of
       None \<Rightarrow> []
     | Some ed \<Rightarrow>
         (case document ed of
            None \<Rightarrow> []
          | Some doc \<Rightarrow> [ShowImpactFor ActiveImpactView [doc_uri doc]]))"

text \<open>The callback given to the project manager: it stores a fresh view under the folder's path.\<close>

definition extensibleChildren :: "IProject \<Rightarrow> ClientState \<Rightarrow> ClientState" where
  "extensibleChildren iProject st =
    st\<lparr>objectViews :=
        (objectViews st)(fsPath (uri (iproject_workspaceFolder iProject)) \<mapsto>
          \<lparr>workspaceFolder = iproject_workspaceFolder iProject\<rparr>)\<rparr>"

section \<open>Activation and the events that follow\<close>

definition activate :: "Host \<Rightarrow> ClientState \<Rightarrow> effect list \<times> ClientState" where
  "activate host st =
    (let client = LanguageClient ''sourceorder-server'' ''Source Orbit Server'' (transport host);
         st1 = st\<lparr>extension_client := Some client\<rparr>;
         st2 = setClient client st1;
         st3 = st2\<lparr>objectViews := Map.empty,
                  childrenCallback := getProjectManager host,
                  gitSubscriptions := []\<rparr>
     in ([ClientStart client, LoadIBMiProjectExplorer],
         (case workspaceFolders host of
            None \<Rightarrow> st3
          | Some folders \<Rightarrow> setupGitEventHandler host folders st3)))"

definition deactivate :: "ClientState \<Rightarrow> effect list" where
  "deactivate st = (case extension_client st of None \<Rightarrow> [] | Some lc \<Rightarrow> [ClientStop lc])"

text \<open>
  One thing that happens after activation. \<open>activate\<close> registers no handler for a saved
  document, so that event runs no code of the client. A repository state change names the
  repository; it runs all the listeners subscribed to that repository, none of which is
  ever disposed of before deactivation. In the trace of that event the continuations come
  after everything the listeners do before they return; among themselves they are listed
  in the order of their listeners, though the host may settle the promises in any order.
\<close>

datatype event =
    DidSaveTextDocument TextDocument
  | DidChangeActiveTextEditor "TextEditor option"
  | DidChangeWorkspaceFolders "WorkspaceFolder list"
  | RepoStateDidChange nat
  | ExtensibleChildren IProject
  | Cmd_loadProject "ObjectsView option"
  | Cmd_goToFile "ILEObjectTreeItem option"
  | Cmd_objects_autoFix "ObjectsView option" "string option"
  | Cmd_autoFix WorkspaceFolder string

fun step :: "Host \<Rightarrow> event \<Rightarrow> ClientState \<Rightarrow> effect list \<times> ClientState" where
  "step host (DidSaveTextDocument d) st = ([], st)"
| "step host (DidChangeActiveTextEditor e) st = (onDidChangeActiveTextEditor e, st)"
| "step host (DidChangeWorkspaceFolders added) st = ([], setupGitEventHandler host added st)"
| "step host (RepoStateDidChange repo) st =
     (let ran = run_listeners host (filter (\<lambda>sub. sub_repo sub = repo) (gitSubscriptions st)) st
      in (fst (fst ran) @ snd (fst ran), snd ran))"
| "step host (ExtensibleChildren iProject) st =
     (if childrenCallback st then ([], extensibleChildren iProject st) else ([], st))"
| "step host (Cmd_loadProject node) st = (cmd_loadProject st node, st)"
| "step host (Cmd_goToFile node) st = (cmd_goToFile host node, st)"
| "step host (Cmd_objects_autoFix node chosen) st = (cmd_objects_autoFix st node chosen, st)"
| "step host (Cmd_autoFix folder t) st = (cmd_autoFix st folder t, st)"

text \<open>
  The state before activation, with nothing stored yet: both \<open>client\<close> variables unset,
  no branch remembered, no view, no listener.
\<close>

definition initial_state :: ClientState where
  "initial_state =
    \<lparr>requests_client = None, extension_client = None, lastBranch = Map.empty,
     objectViews = Map.empty, childrenCallback = False, gitSubscriptions = []\<rparr>"

text \<open>
  The states the client can be in: just activated, or one event later than such a state.
  \<open>lastBranch\<close> is declared in the git module, which is not among these files, so what
  it holds when \<open>activate\<close> runs is left open.
\<close>

inductive reachable :: "ClientState \<Rightarrow> bool" where
  activated: "reachable (snd (activate host st))"
| stepped: "reachable st \<Longrightarrow> reachable (snd (step host ev st))"

text \<open>
  Sorting the effects of a handler: the requests it sends on the language-client
  connection, the calls it makes on a view (which may lead the view to send requests of
  its own), and the queries for changed files.
\<close>

fun is_request :: "effect \<Rightarrow> bool" where
  "is_request (SendRequest m ps) = True"
| "is_request e = False"

fun is_view_call :: "effect \<Rightarrow> bool" where
  "is_view_call (ShowImpactFor v us) = True"
| "is_view_call (Refresh n) = True"
| "is_view_call e = False"

fun is_query :: "effect \<Rightarrow> bool" where
  "is_query (GetChangedFiles folder) = True"
| "is_query e = False"

text \<open>
  How many handlers an event runs: none for a saved document, one listener for every
  subscription to the repository whose state changed, one handler otherwise.
\<close>

fun handler_runs :: "event \<Rightarrow> ClientState \<Rightarrow> nat" where
  "handler_runs (DidSaveTextDocument d) st = 0"
| "handler_runs (RepoStateDidChange repo) st =
     length (filter (\<lambda>sub. sub_repo sub = repo) (gitSubscriptions st))"
| "handler_runs ev st = 1"


text \<open>
  The current branch name of a folder, as the specification speaks of it: the name of the
  branch object that is the \<open>HEAD\<close> of the folder's repository at this moment.
\<close>

definition current_branch :: "Host \<Rightarrow> WorkspaceFolder \<Rightarrow> string option" where
  "current_branch host folder =
    (case getGitAPI host of
       None \<Rightarrow> None
     | Some gitApi \<Rightarrow>
         (case getRepository gitApi (uri folder) of
            None \<Rightarrow> None
          | Some repo \<Rightarrow>
              (case HEAD (repo_state repo) of
                 None \<Rightarrow> None
               | Some head \<Rightarrow> name (branches host head))))"


text \<open>
  The frame the specification claims for every operation: nothing but the branch map
  changes. This predicate follows the specification's words.
\<close>

definition only_lastBranch_changes :: "ClientState \<Rightarrow> ClientState \<Rightarrow> bool" where
  "only_lastBranch_changes st st' =
    (requests_client st' = requests_client st \<and> extension_client st' = extension_client st
     \<and> objectViews st' = objectViews st \<and> childrenCallback st' = childrenCallback st
     \<and> gitSubscriptions st' = gitSubscriptions st)"

section \<open>Example inputs\<close>

text \<open>
  A workspace with one folder on branch \<open>main\<close>, a second folder whose repository has a
  detached \<open>HEAD\<close> (no branch name), one changed file, and a server that answers every
  request with \<open>undefined\<close>. Branch object 10 is named \<open>main\<close>, branch object 11 is
  named \<open>dev\<close>, every other branch object has no name.
\<close>

definition example_folder :: WorkspaceFolder where
  "example_folder = \<lparr>uri = \<lparr>toString = ''file:///ws'', fsPath = ''/ws''\<rparr>, folder_name = ''ws''\<rparr>"


definition example_file :: Uri where
  "example_file = \<lparr>toString = ''file:///ws/a.rpgle'', fsPath = ''/ws/a.rpgle''\<rparr>"

definition example_branches :: "ref \<Rightarrow> Branch" where
  "example_branches r =
    (if r = 10 then \<lparr>name = Some ''main''\<rparr>
     else if r = 11 then \<lparr>name = Some ''dev''\<rparr>
     else \<lparr>name = None\<rparr>)"

text \<open>The git API while the repository of the example folder (repository 7) has \<open>head\<close> as its \<open>HEAD\<close>.\<close>

definition example_git :: "ref \<Rightarrow> GitAPI" where
  "example_git head =
    \<lparr>getRepository =
       (\<lambda>u. if toString u = ''file:///ws''
            then Some \<lparr>repo_id = 7, repo_state = \<lparr>HEAD = Some head\<rparr>\<rparr>
            else if toString u = ''file:///detached''
            then Some \<lparr>repo_id = 8, repo_state = \<lparr>HEAD = Some 20\<rparr>\<rparr>
            else None)\<rparr>"

definition example_host :: Host where
  "example_host =
    \<lparr>getGitAPI = Some (example_git 10),
     branches = example_branches,
     getChangedFiles = (\<lambda>f. Resolved [example_file]),
     workspaceFolders = Some [example_folder],
     getProjectManager = True,
     openTextDocument = (\<lambda>u. Resolved \<lparr>doc_uri = u\<rparr>),
     transport = (\<lambda>m ps. Resolved JUndefined)\<rparr>"

text \<open>
  The same surroundings after a switch to branch \<open>dev\<close>, on a host that gives the
  repository a new \<open>HEAD\<close> object (11) and leaves the old one (10) as it was.
\<close>

definition switched_host :: Host where
  "switched_host = example_host\<lparr>getGitAPI := Some (example_git 11)\<rparr>"


definition example_state :: ClientState where
  "example_state = snd (activate example_host initial_state)"

text \<open>
  The example folder is taken out of the workspace and put back after the switch to
  \<open>dev\<close>: the workspace-folder change sets it up a second time.
\<close>

definition readded_state :: ClientState where
  "readded_state = snd (step switched_host (DidChangeWorkspaceFolders [example_folder]) example_state)"

definition example_node :: ObjectsView where
  "example_node = \<lparr>workspaceFolder = example_folder\<rparr>"

section \<open>Setup and the listeners leave the rest of the state alone\<close>

lemma setupFolder_frame:
  "requests_client (setupFolder host api f st) = requests_client st
   \<and> extension_client (setupFolder host api f st) = extension_client st
   \<and> objectViews (setupFolder host api f st) = objectViews st
   \<and> childrenCallback (setupFolder host api f st) = childrenCallback st"
  by (simp add: setupFolder_def Let_def split: option.splits)

lemma fold_setupFolder_frame:
  "requests_client (fold (setupFolder host api) fs st) = requests_client st
   \<and> extension_client (fold (setupFolder host api) fs st) = extension_client st
   \<and> objectViews (fold (setupFolder host api) fs st) = objectViews st
   \<and> childrenCallback (fold (setupFolder host api) fs st) = childrenCallback st"
  by (induction fs arbitrary: st) (simp_all add: setupFolder_frame)

lemma setupGitEventHandler_frame:
  "requests_client (setupGitEventHandler host fs st) = requests_client st
   \<and> extension_client (setupGitEventHandler host fs st) = extension_client st
   \<and> objectViews (setupGitEventHandler host fs st) = objectViews st
   \<and> childrenCallback (setupGitEventHandler host fs st) = childrenCallback st"
  by (simp add: setupGitEventHandler_def fold_setupFolder_frame split: option.splits)

lemma listener_frame:
  "requests_client (snd (onDidChange_listener host sub st)) = requests_client st
   \<and> extension_client (snd (onDidChange_listener host sub st)) = extension_client st
   \<and> objectViews (snd (onDidChange_listener host sub st)) = objectViews st
   \<and> childrenCallback (snd (onDidChange_listener host sub st)) = childrenCallback st
   \<and> gitSubscriptions (snd (onDidChange_listener host sub st)) = gitSubscriptions st"
  by (simp add: onDidChange_listener_def Let_def split: option.splits)

lemma run_listeners_frame:
  "requests_client (snd (run_listeners host subs st)) = requests_client st
   \<and> extension_client (snd (run_listeners host subs st)) = extension_client st
   \<and> objectViews (snd (run_listeners host subs st)) = objectViews st
   \<and> childrenCallback (snd (run_listeners host subs st)) = childrenCallback st
   \<and> gitSubscriptions (snd (run_listeners host subs st)) = gitSubscriptions st"
  by (induction subs arbitrary: st) (simp_all add: Let_def listener_frame)

lemma extensibleChildren_frame:
  "requests_client (extensibleChildren p st) = requests_client st
   \<and> extension_client (extensibleChildren p st) = extension_client st
   \<and> lastBranch (extensibleChildren p st) = lastBranch st
   \<and> childrenCallback (extensibleChildren p st) = childrenCallback st
   \<and> gitSubscriptions (extensibleChildren p st) = gitSubscriptions st"
  by (simp add: extensibleChildren_def)

section \<open>After activation the request module has its client\<close>

lemma activate_client: "\<exists>lc. requests_client (snd (activate host st)) = Some lc"
  by (simp add: activate_def Let_def setClient_def setupGitEventHandler_frame split: option.splits)

lemma step_client: "requests_client (snd (step host ev st)) = requests_client st"
  by (cases ev)
    (simp_all add: Let_def setupGitEventHandler_frame run_listeners_frame extensibleChildren_frame)

lemma reachable_client: "reachable st \<Longrightarrow> \<exists>lc. requests_client st = Some lc"
  by (induction rule: reachable.induct) (simp_all add: activate_client step_client)

section \<open>The example states\<close>

lemma example_state_eq:
  "example_state =
    \<lparr>requests_client = Some (LanguageClient ''sourceorder-server'' ''Source Orbit Server'' (\<lambda>m ps. Resolved JUndefined)),
     extension_client = Some (LanguageClient ''sourceorder-server'' ''Source Orbit Server'' (\<lambda>m ps. Resolved JUndefined)),
     lastBranch = [''file:///ws'' \<mapsto> ''main''],
     objectViews = Map.empty, childrenCallback = True,
     gitSubscriptions = [\<lparr>sub_repo = 7, sub_folder = example_folder, sub_head = 10\<rparr>]\<rparr>"
  by (simp add: example_state_def activate_def Let_def setClient_def initial_state_def
      setupGitEventHandler_def setupFolder_def example_host_def example_git_def
      example_branches_def example_folder_def)

lemma example_state_reachable: "reachable example_state"
  unfolding example_state_def by (rule reachable.activated)

lemma readded_state_eq:
  "readded_state =
    \<lparr>requests_client = Some (LanguageClient ''sourceorder-server'' ''Source Orbit Server'' (\<lambda>m ps. Resolved JUndefined)),
     extension_client = Some (LanguageClient ''sourceorder-server'' ''Source Orbit Server'' (\<lambda>m ps. Resolved JUndefined)),
     lastBranch = [''file:///ws'' \<mapsto> ''dev''],
     objectViews = Map.empty, childrenCallback = True,
     gitSubscriptions = [\<lparr>sub_repo = 7, sub_folder = example_folder, sub_head = 10\<rparr>,
                         \<lparr>sub_repo = 7, sub_folder = example_folder, sub_head = 11\<rparr>]\<rparr>"
  by (simp add: readded_state_def example_state_eq setupGitEventHandler_def setupFolder_def
      switched_host_def example_host_def example_git_def example_branches_def example_folder_def)

lemma readded_state_reachable: "reachable readded_state"
  unfolding readded_state_def by (rule reachable.stepped) (rule example_state_reachable)


section \<open>One listener\<close>




lemma lookup_kinds:
  "filter is_request (changed_files_lookup host f) = []
   \<and> filter is_query (changed_files_lookup host f) = []
   \<and> filter is_view_call (changed_files_lookup host f) = changed_files_lookup host f
   \<and> length (changed_files_lookup host f) \<le> Suc 0"
  by (simp add: changed_files_lookup_def split: promise.splits)



section \<open>Counting requests and view calls\<close>

lemma listener_counts:
  "length (filter is_request (fst (fst (onDidChange_listener host sub st)))) 
     + length (filter is_request (snd (fst (onDidChange_listener host sub st)))) \<le> Suc 0
   \<and> length (filter is_view_call (fst (fst (onDidChange_listener host sub st))))
     + length (filter is_view_call (snd (fst (onDidChange_listener host sub st)))) \<le> Suc 0"
  using lookup_kinds [of host "sub_folder sub"]
  by (simp add: onDidChange_listener_def Let_def reloadProject_def split: option.splits)

lemma run_listeners_counts:
  "length (filter is_request (fst (fst (run_listeners host subs st))))
     + length (filter is_request (snd (fst (run_listeners host subs st)))) \<le> length subs
   \<and> length (filter is_view_call (fst (fst (run_listeners host subs st))))
     + length (filter is_view_call (snd (fst (run_listeners host subs st)))) \<le> length subs"
proof (induction subs arbitrary: st)
  case Nil
  show ?case by simp
next
  case (Cons sub subs)
  from listener_counts [of host sub st] Cons.IH [of "snd (onDidChange_listener host sub st)"]
  show ?case by (simp add: Let_def)
qed

lemma loadProject_counts:
  "length (filter is_request (cmd_loadProject st node)) \<le> Suc 0
   \<and> length (filter is_view_call (cmd_loadProject st node)) \<le> Suc 0"
  by (simp add: cmd_loadProject_def reloadProject_def enableViews_def split: option.splits promise.splits)

lemma goToFile_counts:
  "filter is_request (cmd_goToFile host node) = []
   \<and> filter is_view_call (cmd_goToFile host node) = []"
  by (simp add: cmd_goToFile_def split: option.splits promise.splits)

lemma objects_autoFix_counts:
  "length (filter is_request (cmd_objects_autoFix st node chosen)) \<le> Suc 0
   \<and> filter is_view_call (cmd_objects_autoFix st node chosen) = []"
  by (simp add: cmd_objects_autoFix_def fixProject_def split: option.splits)

lemma autoFix_counts:
  "length (filter is_request (cmd_autoFix st f t)) \<le> Suc 0
   \<and> filter is_view_call (cmd_autoFix st f t) = []"
  by (simp add: cmd_autoFix_def fixProject_def split: option.splits)

lemma activeEditor_counts:
  "filter is_request (onDidChangeActiveTextEditor e) = []
   \<and> length (filter is_view_call (onDidChangeActiveTextEditor e)) \<le> Suc 0"
  by (simp add: onDidChangeActiveTextEditor_def split: option.splits)

text \<open>
  C8, as the code has it: every run of a handler sends at most one request on the
  language-client connection and makes at most one call on a view (\<open>showImpactFor\<close> or
  \<open>refresh\<close>; what the view requests in turn is decided by the view classes, which are
  not in these files). A saved document runs no handler; an active-editor change and a
  workspace-folder change run one handler, which sends no request itself; a repository
  state change runs one listener for every subscription to that repository, so the
  requests and the view calls of the event are each bounded by the number of those
  listeners, not by one.
\<close>

theorem requests_bounded_by_handler_runs:
  "length (filter is_request (fst (step host ev st))) \<le> handler_runs ev st
   \<and> length (filter is_view_call (fst (step host ev st))) \<le> handler_runs ev st
   \<and> filter is_request (fst (step host (DidSaveTextDocument d) st)) = []
   \<and> filter is_request (fst (step host (DidChangeActiveTextEditor e) st)) = []
   \<and> filter is_request (fst (step host (DidChangeWorkspaceFolders added) st)) = []"
proof -
  have "length (filter is_request (fst (step host ev st))) \<le> handler_runs ev st
        \<and> length (filter is_view_call (fst (step host ev st))) \<le> handler_runs ev st"
  proof (cases ev)
    case (RepoStateDidChange repo)
    with run_listeners_counts [of host "filter (\<lambda>sub. sub_repo sub = repo) (gitSubscriptions st)" st]
    show ?thesis by (simp add: Let_def)
  qed (simp_all add: activeEditor_counts loadProject_counts goToFile_counts
        objects_autoFix_counts autoFix_counts)
  then show ?thesis by (simp add: activeEditor_counts)
qed

text \<open>
  C8 as stated fails: a folder that was set up at activation and again when it was put
  back into the workspace has two listeners on its repository, since no listener is ever
  disposed of. When they hold different branch objects, each finds the name the other
  stored different from its own, and one state change of the repository sends two
  \<open>reloadProject\<close> requests.
\<close>

theorem readded_folder_reloads_twice:
  "reachable readded_state
   \<and> filter is_request (fst (step switched_host (RepoStateDidChange 7) readded_state)) =
     [SendRequest ''reloadProject'' [JString ''file:///ws''],
      SendRequest ''reloadProject'' [JString ''file:///ws'']]
   \<and> \<not> length (filter is_request (fst (step switched_host (RepoStateDidChange 7) readded_state))) \<le> 1"
  using readded_state_reachable
  by (simp add: readded_state_eq Let_def onDidChange_listener_def reloadProject_def
      switched_host_def example_host_def example_branches_def example_folder_def)

section \<open>Repository state changes\<close>

text \<open>
  C2: a switch of branch is meant to clear the git-impact view and reload the project.
  The listener, however, takes the current name from the branch object it captured at
  setup, not from the repository's \<open>HEAD\<close> at the time of the event. On a host that gives
  the repository a new \<open>HEAD\<close> object on a switch, the current branch (\<open>dev\<close>) differs
  from the stored one (\<open>main\<close>), yet the listener reads \<open>main\<close>, finds it equal to the
  stored name and takes the changed-files path: the view is not cleared and no
  \<open>reloadProject\<close> request is sent.
\<close>

theorem stale_head_misses_branch_switch:
  "reachable example_state
   \<and> current_branch switched_host example_folder = Some ''dev''
   \<and> lastBranch example_state (toString (uri example_folder)) = Some ''main''
   \<and> fst (step switched_host (RepoStateDidChange 7) example_state) =
       [GetChangedFiles example_folder, ShowImpactFor GitImpactView [example_file]]"
  using example_state_reachable
  by (simp add: current_branch_def example_state_eq Let_def onDidChange_listener_def
      changed_files_lookup_def switched_host_def example_host_def example_git_def
      example_branches_def example_folder_def)





section \<open>What setup installs\<close>








section \<open>The auto-fix picker\<close>

text \<open>
  C3: in the auto-fix picker command of an activated client, choosing \<open>File names\<close> sends
  one \<open>fixProject\<close> request with the suggestion kind \<open>renames\<close>, choosing \<open>RPG includes\<close>
  sends one with \<open>includes\<close>, and dismissing the picker or choosing \<open>Cancel\<close> sends no
  request.
\<close>

theorem autoFix_picker_forwards_choice:
  assumes "reachable st"
  shows "filter is_request (fst (step host (Cmd_objects_autoFix (Some node) (Some ''File names'')) st)) =
           [SendRequest ''fixProject'' [JString (toString (uri (workspaceFolder node))), JString ''renames'']]
         \<and> filter is_request (fst (step host (Cmd_objects_autoFix (Some node) (Some ''RPG includes'')) st)) =
           [SendRequest ''fixProject'' [JString (toString (uri (workspaceFolder node))), JString ''includes'']]
         \<and> filter is_request (fst (step host (Cmd_objects_autoFix (Some node) None) st)) = []
         \<and> filter is_request (fst (step host (Cmd_objects_autoFix (Some node) (Some ''Cancel'')) st)) = []"
proof -
  from reachable_client [OF assms] obtain lc where lc: "requests_client st = Some lc" ..
  then show ?thesis
    by (simp add: cmd_objects_autoFix_def autoFix_type_def fixProject_def)
qed

theorem autoFix_picker_forwards_choice_witness:
  "reachable example_state
   \<and> filter is_request (fst (step example_host (Cmd_objects_autoFix (Some example_node) (Some ''File names'')) example_state)) =
       [SendRequest ''fixProject'' [JString ''file:///ws'', JString ''renames'']]
   \<and> filter is_request (fst (step example_host (Cmd_objects_autoFix (Some example_node) (Some ''RPG includes'')) example_state)) =
       [SendRequest ''fixProject'' [JString ''file:///ws'', JString ''includes'']]
   \<and> filter is_request (fst (step example_host (Cmd_objects_autoFix (Some example_node) None) example_state)) = []
   \<and> filter is_request (fst (step example_host (Cmd_objects_autoFix (Some example_node) (Some ''Cancel'')) example_state)) = []"
proof -
  have h: "reachable example_state" by (rule example_state_reachable)
  have u: "toString (uri (workspaceFolder example_node)) = ''file:///ws''"
    by (simp add: example_node_def example_folder_def)
  from autoFix_picker_forwards_choice [OF h, of example_host example_node] h u
  show ?thesis by simp
qed

section \<open>What the client keeps between events\<close>

text \<open>
  C7, as the code has it: besides the branch map the client keeps the two \<open>client\<close>
  variables and the registration of the children callback, which no event changes once
  \<open>activate\<close> has set them; the \<open>objectViews\<close> map, which only the children callback of
  the project manager changes; and the repository listeners, which only a
  workspace-folder change adds to. The branch map is changed only by a workspace-folder
  change and by a repository state change.
\<close>

theorem state_changed_by_each_event:
  "requests_client (snd (step host ev st)) = requests_client st
   \<and> extension_client (snd (step host ev st)) = extension_client st
   \<and> childrenCallback (snd (step host ev st)) = childrenCallback st
   \<and> (objectViews (snd (step host ev st)) \<noteq> objectViews st \<longrightarrow> (\<exists>p. ev = ExtensibleChildren p))
   \<and> (gitSubscriptions (snd (step host ev st)) \<noteq> gitSubscriptions st \<longrightarrow>
        (\<exists>added. ev = DidChangeWorkspaceFolders added))
   \<and> (lastBranch (snd (step host ev st)) \<noteq> lastBranch st \<longrightarrow>
        (\<exists>added. ev = DidChangeWorkspaceFolders added) \<or> (\<exists>repo. ev = RepoStateDidChange repo))"
  by (cases ev)
    (simp_all add: Let_def setupGitEventHandler_frame run_listeners_frame extensibleChildren_frame)

theorem state_changed_by_each_event_witness:
  "lastBranch (snd (step switched_host (DidChangeWorkspaceFolders [example_folder]) example_state))
     \<noteq> lastBranch example_state
   \<and> gitSubscriptions (snd (step switched_host (DidChangeWorkspaceFolders [example_folder]) example_state))
     \<noteq> gitSubscriptions example_state
   \<and> requests_client (snd (step switched_host (DidChangeWorkspaceFolders [example_folder]) example_state))
       = requests_client example_state
   \<and> extension_client (snd (step switched_host (DidChangeWorkspaceFolders [example_folder]) example_state))
       = extension_client example_state
   \<and> childrenCallback (snd (step switched_host (DidChangeWorkspaceFolders [example_folder]) example_state))
       = childrenCallback example_state
   \<and> objectViews (snd (step switched_host (DidChangeWorkspaceFolders [example_folder]) example_state))
       = objectViews example_state"
proof -
  let ?st' = "snd (step switched_host (DidChangeWorkspaceFolders [example_folder]) example_state)"
  have st': "?st' = readded_state" by (simp add: readded_state_def)
  have new: "lastBranch ?st' ''file:///ws'' = Some ''dev''"
    by (simp only: st') (simp add: readded_state_eq)
  have old: "lastBranch example_state ''file:///ws'' = Some ''main''"
    by (simp add: example_state_eq)
  have changed: "lastBranch ?st' \<noteq> lastBranch example_state"
  proof
    assume "lastBranch ?st' = lastBranch example_state"
    then have "lastBranch ?st' ''file:///ws'' = lastBranch example_state ''file:///ws''" by simp
    with new old show False by simp
  qed
  have more: "gitSubscriptions ?st' \<noteq> gitSubscriptions example_state"
    by (simp only: st') (simp add: readded_state_eq example_state_eq)
  from state_changed_by_each_event [of switched_host "DidChangeWorkspaceFolders [example_folder]" example_state]
    changed more
  show ?thesis by auto
qed

text \<open>
  C7 as stated fails: when the project manager asks for the children of a project, the
  callback stores a view in \<open>objectViews\<close>, which is kept until the next event.
\<close>

theorem objectViews_changes_counterexample:
  "\<not> only_lastBranch_changes example_state
       (snd (step example_host (ExtensibleChildren \<lparr>iproject_workspaceFolder = example_folder\<rparr>) example_state))"
  by (simp add: only_lastBranch_changes_def example_state_eq extensibleChildren_def)

section \<open>The active editor\<close>

text \<open>
  C5: an active-editor change that carries an editor with a document renders the
  active-impact view for the one-element list of that document's URI and does nothing
  else; a change with no editor, or with an editor without a document, has no effect.
\<close>

theorem active_editor_change_shows_document:
  "step host (DidChangeActiveTextEditor (Some \<lparr>document = Some doc\<rparr>)) st =
     ([ShowImpactFor ActiveImpactView [doc_uri doc]], st)
   \<and> step host (DidChangeActiveTextEditor None) st = ([], st)
   \<and> step host (DidChangeActiveTextEditor (Some \<lparr>document = None\<rparr>)) st = ([], st)"
  by (simp add: onDidChangeActiveTextEditor_def)

section \<open>The request functions, with and without a connection\<close>

text \<open>
  C1, as the code has it: without a connection no request function sends a request, and
  each returns its own fallback: \<open>isReady\<close> resolves to \<open>false\<close>; \<open>getResolvedObjects\<close>,
  \<open>getDeps\<close> and \<open>getImpacts\<close> resolve to an empty list; \<open>reloadProject\<close> returns a
  rejected promise; \<open>fixProject\<close> returns \<open>undefined\<close>. None of these branches has an
  operation that can throw: each is a single \<open>return\<close> behind the guard.
\<close>

theorem degraded_values_without_connection:
  "isReady None folder = (Resolved (JBool False), [])
   \<and> getResolvedObjects None folder = (Resolved (JArray []), [])
   \<and> getDeps None folder obj = (Resolved (JArray []), [])
   \<and> getImpacts None folder fileUris = (Resolved (JArray []), [])
   \<and> reloadProject None folder = (Rejected, [])
   \<and> fixProject None folder s = (Undefined, [])"
  by (simp add: isReady_def getResolvedObjects_def getDeps_def getImpacts_def
      reloadProject_def fixProject_def)

text \<open>
  C1 as stated fails for \<open>fixProject\<close>: what it returns without a connection is none of
  the three documented degraded values.
\<close>

theorem fixProject_not_documented_degraded:
  "\<not> (documented_degraded (fst (fixProject None example_folder ''renames''))
      \<and> snd (fixProject None example_folder ''renames'') = [])"
  by (simp add: documented_degraded_def fixProject_def)

text \<open>
  C6: with a connection, every request function sends exactly one request, under its
  documented name, with the workspace root URI in string form as first parameter;
  \<open>getImpacts\<close> sends the pair of the workspace URI string and the file URIs converted to
  strings one by one in the order given.
\<close>

theorem requests_sent_with_connection:
  "snd (isReady (Some lc) folder) = [SendRequest ''isReady'' [JString (toString (uri folder))]]
   \<and> snd (getResolvedObjects (Some lc) folder) = [SendRequest ''getResolvedObjects'' [JString (toString (uri folder))]]
   \<and> snd (getDeps (Some lc) folder obj) = [SendRequest ''getDeps'' [JString (toString (uri folder)), obj]]
   \<and> snd (getImpacts (Some lc) folder fileUris) =
       [SendRequest ''getImpacts'' [JString (toString (uri folder)), JArray (map (\<lambda>u. JString (toString u)) fileUris)]]
   \<and> snd (reloadProject (Some lc) folder) = [SendRequest ''reloadProject'' [JString (toString (uri folder))]]
   \<and> snd (fixProject (Some lc) folder s) = [SendRequest ''fixProject'' [JString (toString (uri folder)), JString s]]"
  by (simp add: isReady_def getResolvedObjects_def getDeps_def getImpacts_def
      reloadProject_def fixProject_def)

text \<open>
  C9: without a connection \<open>fixProject\<close> returns \<open>undefined\<close>, which is neither an empty
  collection nor \<open>false\<close> nor a rejected promise, and sends no request.
\<close>

theorem fixProject_without_connection:
  "fst (fixProject None folder s) = Undefined
   \<and> fst (fixProject None folder s) \<noteq> Promise (Resolved (JArray []))
   \<and> fst (fixProject None folder s) \<noteq> Promise (Resolved (JBool False))
   \<and> fst (fixProject None folder s) \<noteq> Promise Rejected
   \<and> snd (fixProject None folder s) = []"
  by (simp add: fixProject_def)

end
